theory Spec2Isabelle
  imports Complex_Main
begin

section \<open>JavaScript values used by the backend\<close>

text \<open>
  \<open>process.env\<close> is a dictionary from variable names to strings; a variable that is
  not set reads as \<open>undefined\<close>, here \<open>None\<close>.
\<close>

type_synonym env = "string \<rightharpoonup> string"

text \<open>
  Truthiness of a value that is either \<open>undefined\<close> or a string: the empty string
  and \<open>undefined\<close> are falsy.
\<close>

definition truthy :: "string option \<Rightarrow> bool" where
  "truthy v = (case v of None \<Rightarrow> False | Some s \<Rightarrow> s \<noteq> [])"

text \<open>
  \<open>String.prototype.split(' ')\<close>: the pieces between single space characters; the
  empty string gives one empty piece, two adjacent spaces give an empty piece.
\<close>

fun split_space :: "string \<Rightarrow> string list" where
  "split_space [] = [[]]"
| "split_space (c # cs) =
     (if c = CHR '' '' then [] # split_space cs
      else (case split_space cs of
              [] \<Rightarrow> [[c]]
            | w # ws \<Rightarrow> (c # w) # ws))"

section \<open>The jsonwebtoken library, symbolically\<close>

text \<open>
  \<open>utils/jwt.js\<close> wraps the \<open>jsonwebtoken\<close> package. The package is not part of
  the repository; its interface is represented symbolically: a token is either a
  signed payload together with the key it was signed with (a compact JWS whose HS256
  signature verifies under that key and no other), or a string that does not decode.
  The payload record holds the claims this program writes (\<open>userId\<close>, \<open>role\<close>,
  \<open>email\<close>, \<open>type\<close>) and the registered claims the library adds (\<open>iat\<close>, \<open>exp\<close>,
  \<open>iss\<close>, \<open>aud\<close>); a claim that is absent is \<open>None\<close>. Times are NumericDate values,
  whole seconds since the epoch.
\<close>

record jwt_payload =
  userId :: "string option"
  role :: "string option"
  email :: "string option"
  type :: "string option"
  iat :: "int option"
  exp :: "int option"
  iss :: "string option"
  aud :: "string option"

datatype token = Jws jwt_payload string | Undecodable string

text \<open>The value of an \<open>expiresIn\<close> option: a number of seconds or a time span string.\<close>

datatype expires_in = Seconds int | Span string

record sign_options =
  expiresIn :: expires_in
  issuer :: string
  audience :: string

record verify_options =
  v_issuer :: string
  v_audience :: string

datatype jwt_error =
    SecretOrPrivateKeyMissing
  | BadExpiresIn
  | JwtMalformed
  | SecretOrPublicKeyMissing
  | InvalidSignature
  | TokenExpiredError
  | JwtAudienceInvalid
  | JwtIssuerInvalid

text \<open>
  The library's \<open>timespan\<close>: a number is added to \<open>iat\<close>; a string goes through the
  \<open>ms\<close> package, whose result in milliseconds (or \<open>undefined\<close>, here \<open>None\<close>) is
  floored to seconds. The \<open>ms\<close> conversion itself is a parameter of the model.
\<close>

definition timespan :: "(string \<Rightarrow> int option) \<Rightarrow> expires_in \<Rightarrow> int \<Rightarrow> int option" where
  "timespan ms t iat_s =
     (case t of
        Seconds n \<Rightarrow> Some (iat_s + n)
      | Span s \<Rightarrow> (case ms s of None \<Rightarrow> None | Some m \<Rightarrow> Some (iat_s + m div 1000)))"

text \<open>
  \<open>jwt.sign(payload, secret, options)\<close> at clock reading \<open>now\<close> (\<open>Date.now()\<close>, in
  milliseconds): fails when the secret is missing or the time span does not convert,
  otherwise stamps \<open>iat\<close>, \<open>exp\<close>, \<open>iss\<close> and \<open>aud\<close> and signs.
\<close>

definition jwt_sign ::
  "(string \<Rightarrow> int option) \<Rightarrow> int \<Rightarrow> jwt_payload \<Rightarrow> string option \<Rightarrow> sign_options
   \<Rightarrow> jwt_error + token" where
  "jwt_sign ms now payload secret opts =
     (case secret of
        None \<Rightarrow> Inl SecretOrPrivateKeyMissing
      | Some k \<Rightarrow>
          if k = [] then Inl SecretOrPrivateKeyMissing
          else (case timespan ms (expiresIn opts) (now div 1000) of
                  None \<Rightarrow> Inl BadExpiresIn
                | Some e \<Rightarrow>
                    Inr (Jws (payload\<lparr>iat := Some (now div 1000), exp := Some e,
                                       iss := Some (issuer opts),
                                       aud := Some (audience opts)\<rparr>) k)))"

text \<open>
  \<open>jwt.verify(token, secret, options)\<close> at clock reading \<open>now\<close>: the checks in the
  library's order (shape, key present, signature, \<open>exp\<close>, audience, issuer). A token
  is expired when the clock, in seconds, has reached \<open>exp\<close>.
\<close>

definition jwt_verify ::
  "int \<Rightarrow> token \<Rightarrow> string option \<Rightarrow> verify_options \<Rightarrow> jwt_error + jwt_payload" where
  "jwt_verify now tok secret opts =
     (case tok of
        Undecodable s \<Rightarrow> Inl JwtMalformed
      | Jws p k \<Rightarrow>
          (case secret of
             None \<Rightarrow> Inl SecretOrPublicKeyMissing
           | Some k' \<Rightarrow>
               if k' = [] then Inl SecretOrPublicKeyMissing
               else if k \<noteq> k' then Inl InvalidSignature
               else if (case exp p of None \<Rightarrow> False | Some e \<Rightarrow> now div 1000 \<ge> e)
                 then Inl TokenExpiredError
               else if aud p \<noteq> Some (v_audience opts) then Inl JwtAudienceInvalid
               else if iss p \<noteq> Some (v_issuer opts) then Inl JwtIssuerInvalid
               else Inr p))"

text \<open>\<open>jwt.decode(token)\<close>: the payload without any check, \<open>null\<close> when it does not decode.\<close>

definition jwt_decode :: "token \<Rightarrow> jwt_payload option" where
  "jwt_decode tok = (case tok of Undecodable s \<Rightarrow> None | Jws p k \<Rightarrow> Some p)"

section \<open>utils/jwt.js\<close>

record token_options =
  opt_role :: "string option"
  opt_email :: "string option"
  opt_expiresIn :: "expires_in option"

definition no_options :: token_options where
  "no_options = \<lparr>opt_role = None, opt_email = None, opt_expiresIn = None\<rparr>"

text \<open>\<open>process.env.APP_NAME || 'AWS MongoDB Backend'\<close>\<close>

definition app_issuer :: "env \<Rightarrow> string" where
  "app_issuer e =
     (case e ''APP_NAME'' of
        None \<Rightarrow> ''AWS MongoDB Backend''
      | Some n \<Rightarrow> if n = [] then ''AWS MongoDB Backend'' else n)"

definition app_audience :: string where
  "app_audience = ''aws-mongodb-app-users''"

text \<open>
  \<open>options.expiresIn || process.env.JWT_EXPIRE || '7d'\<close>: a falsy \<open>options.expiresIn\<close>
  (absent, the number 0, the empty string) falls through to the environment.
\<close>

definition env_expiresIn :: "env \<Rightarrow> expires_in" where
  "env_expiresIn e =
     (case e ''JWT_EXPIRE'' of
        None \<Rightarrow> Span ''7d''
      | Some s \<Rightarrow> if s = [] then Span ''7d'' else Span s)"

definition access_expiresIn :: "env \<Rightarrow> token_options \<Rightarrow> expires_in" where
  "access_expiresIn e options =
     (case opt_expiresIn options of
        Some (Seconds n) \<Rightarrow> if n \<noteq> 0 then Seconds n else env_expiresIn e
      | Some (Span s) \<Rightarrow> if s \<noteq> [] then Span s else env_expiresIn e
      | None \<Rightarrow> env_expiresIn e)"

definition generateToken ::
  "(string \<Rightarrow> int option) \<Rightarrow> env \<Rightarrow> int \<Rightarrow> string \<Rightarrow> token_options \<Rightarrow> jwt_error + token" where
  "generateToken ms e now uid options =
     (let payload = \<lparr>userId = Some uid,
                      role = (if truthy (opt_role options) then opt_role options else None),
                      email = (if truthy (opt_email options) then opt_email options else None),
                      type = None, iat = None, exp = None, iss = None, aud = None\<rparr>;
          tokenOptions = \<lparr>expiresIn = access_expiresIn e options,
                           issuer = app_issuer e,
                           audience = app_audience\<rparr>
      in jwt_sign ms now payload (e ''JWT_SECRET'') tokenOptions)"

definition generateRefreshToken ::
  "(string \<Rightarrow> int option) \<Rightarrow> env \<Rightarrow> int \<Rightarrow> string \<Rightarrow> jwt_error + token" where
  "generateRefreshToken ms e now uid =
     jwt_sign ms now
       \<lparr>userId = Some uid, role = None, email = None, type = Some ''refresh'',
        iat = None, exp = None, iss = None, aud = None\<rparr>
       (e ''JWT_SECRET'')
       \<lparr>expiresIn = Span ''30d'', issuer = app_issuer e, audience = app_audience\<rparr>"

text \<open>The \<open>try\<close>/\<open>catch\<close> of \<open>verifyToken\<close> rethrows, so the library's result is the result.\<close>

definition verifyToken :: "env \<Rightarrow> int \<Rightarrow> token \<Rightarrow> jwt_error + jwt_payload" where
  "verifyToken e now tok =
     jwt_verify now tok (e ''JWT_SECRET'')
       \<lparr>v_issuer = app_issuer e, v_audience = app_audience\<rparr>"

definition extractTokenFromHeader :: "string option \<Rightarrow> string option" where
  "extractTokenFromHeader authHeader =
     (case authHeader of
        None \<Rightarrow> None
      | Some h \<Rightarrow>
          if h = [] then None
          else (let parts = split_space h
                in if length parts \<noteq> 2 \<or> parts ! 0 \<noteq> ''Bearer'' then None
                   else Some (parts ! 1)))"

text \<open>
  \<open>isTokenExpired\<close>: \<open>!decoded.exp\<close> is true for an absent claim and for the number 0;
  \<open>currentTime\<close> is \<open>Math.floor(Date.now() / 1000)\<close>. The \<open>catch\<close> branch returns
  \<open>true\<close> as the undecodable case does.
\<close>

definition isTokenExpired :: "int \<Rightarrow> token \<Rightarrow> bool" where
  "isTokenExpired now tok =
     (case jwt_decode tok of
        None \<Rightarrow> True
      | Some decoded \<Rightarrow>
          (case exp decoded of
             None \<Rightarrow> True
           | Some e \<Rightarrow> if e = 0 then True else e < now div 1000))"

section \<open>start.js\<close>

text \<open>
  The launcher exits with status 1 when \<open>.env\<close> does not exist; otherwise
  \<open>dotenv\<close> adds the file's variables to \<open>process.env\<close> (a variable already set keeps
  its value), the required variables are checked, and only then \<open>server.js\<close> is
  loaded. Console output is not part of the model.
\<close>

datatype start_outcome = ProcessExit nat | RequireServer env

definition requiredEnvVars :: "string list" where
  "requiredEnvVars = [''JWT_SECRET'', ''MONGODB_URI'']"

definition missingEnvVars :: "env \<Rightarrow> string list" where
  "missingEnvVars e = filter (\<lambda>envVar. \<not> truthy (e envVar)) requiredEnvVars"

definition start :: "env \<Rightarrow> env option \<Rightarrow> start_outcome" where
  "start process_env dotenv_file =
     (case dotenv_file of
        None \<Rightarrow> ProcessExit 1
      | Some file \<Rightarrow>
          (let e = file ++ process_env
           in if length (missingEnvVars e) > 0 then ProcessExit 1
              else RequireServer e))"

section \<open>Documents and the store\<close>

text \<open>
  A document id is an ObjectId, written as its canonical string. Mongoose casts the
  \<open>:id\<close> path parameter to an ObjectId and throws a CastError when it cannot; which
  strings cast, and to what, is the parameter \<open>cast\<close> of every operation below.
\<close>

type_synonym oid = string

datatype thrown = CastError

text \<open>The fields the schemas share.\<close>

record doc_meta =
  isActive :: bool
  createdAt :: int
  updatedAt :: int

datatype user_role = RoleUser | RoleAdmin

text \<open>
  Modelled from the spec: \<open>models/User.js\<close> is not among the sources. The user record
  of the data model: username, email, first and last name, role (\<open>user\<close> or \<open>admin\<close>),
  active flag, timestamps, and the password hash. \<open>user_public\<close> is the document as
  \<open>select('-password')\<close> returns it.
\<close>

record user_public = doc_meta +
  username :: string
  email :: string
  firstName :: string
  lastName :: string
  role :: user_role

record user = user_public +
  password :: string

record image =
  url :: string
  alt :: string

text \<open>\<open>models/Product.js\<close>\<close>

record product = doc_meta +
  name :: string
  description :: string
  price :: rat
  category :: string
  stock :: rat
  images :: "image list"
  specifications :: "(string \<times> string) list"
  tags :: "string list"
  createdBy :: oid

record db =
  users :: "(oid \<times> user) list"
  products :: "(oid \<times> product) list"

subsection \<open>Mongoose queries\<close>

text \<open>A document found by id is returned with its \<open>_id\<close>.\<close>

definition findById ::
  "(string \<Rightarrow> oid option) \<Rightarrow> (oid \<times> 'a) list \<Rightarrow> string
   \<Rightarrow> thrown + (oid \<times> 'a) option" where
  "findById cast coll ident =
     (case cast ident of
        None \<Rightarrow> Inl CastError
      | Some k \<Rightarrow> Inr (map_option (\<lambda>doc. (k, doc)) (map_of coll k)))"

text \<open>With \<open>new: true\<close> the updated document is returned, \<open>null\<close> when none matches.\<close>

definition findByIdAndUpdate ::
  "(string \<Rightarrow> oid option) \<Rightarrow> (oid \<times> 'a) list \<Rightarrow> string \<Rightarrow> ('a \<Rightarrow> 'a)
   \<Rightarrow> thrown + ((oid \<times> 'a) list \<times> 'a option)" where
  "findByIdAndUpdate cast coll ident upd =
     (case cast ident of
        None \<Rightarrow> Inl CastError
      | Some k \<Rightarrow>
          Inr (map (\<lambda>(k', d). if k' = k then (k', upd d) else (k', d)) coll,
               map_option upd (map_of coll k)))"

definition findByIdAndDelete ::
  "(string \<Rightarrow> oid option) \<Rightarrow> (oid \<times> 'a) list \<Rightarrow> string \<Rightarrow> thrown + (oid \<times> 'a) list" where
  "findByIdAndDelete cast coll ident =
     (case cast ident of
        None \<Rightarrow> Inl CastError
      | Some k \<Rightarrow> Inr (filter (\<lambda>(k', d). k' \<noteq> k) coll))"

text \<open>\<open>User.findOne({ username, _id: { $ne: id } })\<close>\<close>

definition findOne_username_ne ::
  "(string \<Rightarrow> oid option) \<Rightarrow> (oid \<times> user) list \<Rightarrow> string \<Rightarrow> string
   \<Rightarrow> thrown + (oid \<times> user) option" where
  "findOne_username_ne cast coll uname ident =
     (case cast ident of
        None \<Rightarrow> Inl CastError
      | Some k \<Rightarrow> Inr (find (\<lambda>(k', u). username u = uname \<and> k' \<noteq> k) coll))"

text \<open>\<open>document.save()\<close> writes the document back under its id.\<close>

definition save :: "(oid \<times> 'a) list \<Rightarrow> oid \<Rightarrow> 'a \<Rightarrow> (oid \<times> 'a) list" where
  "save coll k d = map (\<lambda>(k', d'). if k' = k then (k', d) else (k', d')) coll"

section \<open>Requests and responses\<close>

datatype json =
    JNull
  | JBool bool
  | JNum rat
  | JStr string
  | JArr "json list"
  | JObj "(string \<times> json) list"

text \<open>
  The first detail of a Joi validation error. The message text is Joi's; the model
  keeps which rule failed on which key.
\<close>

datatype joi_detail =
    StringBase string
  | StringEmpty string
  | StringMin string nat
  | StringMax string nat
  | ObjectUnknown string

datatype message = Text string | JoiMessage joi_detail

record 'a response =
  status :: nat
  success :: bool
  message :: "message option"
  data :: "'a option"

definition failure :: "nat \<Rightarrow> string \<Rightarrow> 'a response" where
  "failure code msg = \<lparr>status = code, success = False, message = Some (Text msg), data = None\<rparr>"

text \<open>
  A request as a handler sees it: \<open>req.user\<close> is the decoded token payload attached
  by the \<open>auth\<close> middleware, \<open>req.params.id\<close> the path parameter, \<open>req.body\<close> the parsed
  JSON object.
\<close>

record request =
  user :: jwt_payload
  params_id :: string
  body :: "(string \<times> json) list"

section \<open>routes/users.js\<close>

text \<open>
  \<open>Joi.string()\<close> with optional \<open>min\<close> and a \<open>max\<close>, on an optional key: an absent key
  passes; a value that is not a string, the empty string, and a string outside the
  length bounds fail, in this order.
\<close>

fun joi_string :: "string \<Rightarrow> nat option \<Rightarrow> nat \<Rightarrow> json option \<Rightarrow> joi_detail option" where
  "joi_string key mn mx None = None"
| "joi_string key mn mx (Some (JStr s)) =
     (if s = [] then Some (StringEmpty key)
      else if (case mn of None \<Rightarrow> False | Some m \<Rightarrow> length s < m)
        then Some (StringMin key (case mn of None \<Rightarrow> 0 | Some m \<Rightarrow> m))
      else if length s > mx then Some (StringMax key mx)
      else None)"
| "joi_string key mn mx (Some v) = Some (StringBase key)"

text \<open>
  \<open>updateUserSchema.validate(req.body)\<close>: the schema's keys in their order, then the
  first key of the body that the schema does not know; the first failure is reported.
\<close>

definition updateUserSchema_validate :: "(string \<times> json) list \<Rightarrow> joi_detail option" where
  "updateUserSchema_validate b =
     (case joi_string ''firstName'' None 50 (map_of b ''firstName'') of
        Some d \<Rightarrow> Some d
      | None \<Rightarrow>
     (case joi_string ''lastName'' None 50 (map_of b ''lastName'') of
        Some d \<Rightarrow> Some d
      | None \<Rightarrow>
     (case joi_string ''username'' (Some 3) 30 (map_of b ''username'') of
        Some d \<Rightarrow> Some d
      | None \<Rightarrow>
     (case find (\<lambda>(k, v). k \<notin> set [''firstName'', ''lastName'', ''username'']) b of
        Some (k, v) \<Rightarrow> Some (ObjectUnknown k)
      | None \<Rightarrow> None))))"

text \<open>A key of the destructured body: a string, or \<open>undefined\<close>.\<close>

definition body_string :: "(string \<times> json) list \<Rightarrow> string \<Rightarrow> string option" where
  "body_string b key = (case map_of b key of Some (JStr s) \<Rightarrow> Some s | _ \<Rightarrow> None)"

text \<open>
  The update document \<open>{ firstName, lastName, username, updatedAt: Date.now() }\<close>
  applied to a stored user: a key whose value is \<open>undefined\<close> is left out of the
  update (Mongoose 6 and later), so the stored field stays.
\<close>

definition update_user_fields ::
  "string option \<Rightarrow> string option \<Rightarrow> string option \<Rightarrow> int \<Rightarrow> user \<Rightarrow> user" where
  "update_user_fields fname lname uname now u =
     u\<lparr>firstName := (case fname of None \<Rightarrow> firstName u | Some v \<Rightarrow> v),
       lastName := (case lname of None \<Rightarrow> lastName u | Some v \<Rightarrow> v),
       username := (case uname of None \<Rightarrow> username u | Some v \<Rightarrow> v),
       updatedAt := now\<rparr>"

text \<open>The ownership test of the user routes.\<close>

definition access_denied :: "request \<Rightarrow> bool" where
  "access_denied req =
     (userId (user req) \<noteq> Some (params_id req) \<and> jwt_payload.role (user req) \<noteq> Some ''admin'')"

text \<open>
  Whether the username check of the update route finds an \<open>existingUser\<close>: the body
  asks for a username that a user with another id already has.
\<close>

definition username_taken :: "db \<Rightarrow> oid \<Rightarrow> (string \<times> json) list \<Rightarrow> bool" where
  "username_taken d k b =
     (case body_string b ''username'' of
        None \<Rightarrow> False
      | Some v \<Rightarrow> find (\<lambda>(k', u). username u = v \<and> k' \<noteq> k) (users d) \<noteq> None)"

text \<open>\<open>router.put('/:id', auth, ...)\<close>, after the \<open>auth\<close> middleware has attached \<open>req.user\<close>.\<close>

definition users_put ::
  "(string \<Rightarrow> oid option) \<Rightarrow> int \<Rightarrow> db \<Rightarrow> request \<Rightarrow> db \<times> user_public response" where
  "users_put cast now d req =
     (case updateUserSchema_validate (body req) of
        Some err \<Rightarrow>
          (d, \<lparr>status = 400, success = False, message = Some (JoiMessage err), data = None\<rparr>)
      | None \<Rightarrow>
          if access_denied req then (d, failure 403 ''Access denied'')
          else
            (let fname = body_string (body req) ''firstName'';
                 lname = body_string (body req) ''lastName'';
                 uname = body_string (body req) ''username''
             in case (case uname of
                        None \<Rightarrow> Inr None
                      | Some v \<Rightarrow>
                          if v = [] then Inr None
                          else findOne_username_ne cast (users d) v (params_id req)) of
                  Inl err \<Rightarrow> (d, failure 500 ''Server error'')
                | Inr (Some existingUser) \<Rightarrow> (d, failure 400 ''Username already taken'')
                | Inr None \<Rightarrow>
                    (case findByIdAndUpdate cast (users d) (params_id req)
                            (update_user_fields fname lname uname now) of
                       Inl err \<Rightarrow> (d, failure 500 ''Server error'')
                     | Inr (users', None) \<Rightarrow> (d\<lparr>users := users'\<rparr>, failure 404 ''User not found'')
                     | Inr (users', Some u) \<Rightarrow>
                         (d\<lparr>users := users'\<rparr>,
                          \<lparr>status = 200, success = True,
                           message = Some (Text ''User updated successfully''),
                           data = Some (user_public.truncate u)\<rparr>))))"

text \<open>
  \<open>router.delete('/:id', [auth, admin], ...)\<close>, after both middlewares have let the
  request through.
\<close>

definition users_delete ::
  "(string \<Rightarrow> oid option) \<Rightarrow> db \<Rightarrow> request \<Rightarrow> db \<times> unit response" where
  "users_delete cast d req =
     (case findById cast (users d) (params_id req) of
        Inl err \<Rightarrow> (d, failure 500 ''Server error'')
      | Inr None \<Rightarrow> (d, failure 404 ''User not found'')
      | Inr (Some (k, u)) \<Rightarrow>
          if userId (user req) = Some (params_id req)
          then (d, failure 400 ''Cannot delete your own account'')
          else (case findByIdAndDelete cast (users d) (params_id req) of
                  Inl err \<Rightarrow> (d, failure 500 ''Server error'')
                | Inr users' \<Rightarrow>
                    (d\<lparr>users := users'\<rparr>,
                     \<lparr>status = 200, success = True,
                      message = Some (Text ''User deleted successfully''), data = None\<rparr>)))"

text \<open>
  \<open>router.put('/:id/toggle-status', [auth, admin], ...)\<close>. Whether \<open>user.save()\<close> also
  refreshes \<open>updatedAt\<close> depends on the \<open>timestamps\<close> option of the user schema, which
  is the parameter \<open>timestamps\<close>. The response carries the id, username, email and
  new active flag.
\<close>

definition users_toggle_status ::
  "(string \<Rightarrow> oid option) \<Rightarrow> bool \<Rightarrow> int \<Rightarrow> db \<Rightarrow> request
   \<Rightarrow> db \<times> (oid \<times> string \<times> string \<times> bool) response" where
  "users_toggle_status cast timestamps now d req =
     (case findById cast (users d) (params_id req) of
        Inl err \<Rightarrow> (d, failure 500 ''Server error'')
      | Inr None \<Rightarrow> (d, failure 404 ''User not found'')
      | Inr (Some (k, u)) \<Rightarrow>
          if userId (user req) = Some (params_id req)
          then (d, failure 400 ''Cannot change your own status'')
          else
            (let u' = u\<lparr>isActive := \<not> isActive u,
                        updatedAt := (if timestamps then now else updatedAt u)\<rparr>
             in (d\<lparr>users := save (users d) k u'\<rparr>,
                 \<lparr>status = 200, success = True,
                  message = Some (Text (''User ''
                     @ (if isActive u' then ''activated'' else ''deactivated'')
                     @ '' successfully'')),
                  data = Some (k, username u', email u', isActive u')\<rparr>)))"

section \<open>routes/products.js\<close>

text \<open>
  \<open>populate('createdBy', 'username firstName lastName')\<close>: the creator's id and the
  three selected fields, \<open>null\<close> when the user no longer exists.
\<close>

definition populate_createdBy ::
  "(oid \<times> user) list \<Rightarrow> product \<Rightarrow> (oid \<times> string \<times> string \<times> string) option" where
  "populate_createdBy us p =
     map_option (\<lambda>u. (createdBy p, username u, firstName u, lastName u))
       (map_of us (createdBy p))"

text \<open>\<open>router.get('/:id', ...)\<close>, public.\<close>

definition products_get ::
  "(string \<Rightarrow> oid option) \<Rightarrow> db \<Rightarrow> string
   \<Rightarrow> (product \<times> (oid \<times> string \<times> string \<times> string) option) response" where
  "products_get cast d ident =
     (case findById cast (products d) ident of
        Inl err \<Rightarrow> failure 500 ''Server error''
      | Inr None \<Rightarrow> failure 404 ''Product not found''
      | Inr (Some (k, p)) \<Rightarrow>
          if \<not> isActive p then failure 404 ''Product not found''
          else \<lparr>status = 200, success = True, message = None,
                data = Some (p, populate_createdBy (users d) p)\<rparr>)"

text \<open>
  \<open>router.delete('/:id', [auth, admin], ...)\<close>, after both middlewares have let the
  request through: the soft delete.
\<close>

definition products_delete ::
  "(string \<Rightarrow> oid option) \<Rightarrow> int \<Rightarrow> db \<Rightarrow> string \<Rightarrow> db \<times> unit response" where
  "products_delete cast now d ident =
     (case findByIdAndUpdate cast (products d) ident
             (\<lambda>p. p\<lparr>isActive := False, updatedAt := now\<rparr>) of
        Inl err \<Rightarrow> (d, failure 500 ''Server error'')
      | Inr (products', None) \<Rightarrow>
          (d\<lparr>products := products'\<rparr>, failure 404 ''Product not found'')
      | Inr (products', Some p) \<Rightarrow>
          (d\<lparr>products := products'\<rparr>,
           \<lparr>status = 200, success = True,
            message = Some (Text ''Product deleted successfully''), data = None\<rparr>))"

section \<open>Concrete instances\<close>

text \<open>
  Instances of the parameters and a small store, for evaluating the definitions on
  concrete inputs. \<open>ms_table\<close> lists the time spans used below with the milliseconds
  the \<open>ms\<close> package gives for them; \<open>hex_cast\<close> accepts the 24-digit hexadecimal
  form of an ObjectId and reads the digits case-insensitively.
\<close>

definition ms_table :: "string \<Rightarrow> int option" where
  "ms_table s =
     (if s = ''7d'' then Some 604800000
      else if s = ''30d'' then Some 2592000000
      else if s = ''0s'' then Some 0
      else None)"

definition env_example :: env where
  "env_example = [''JWT_SECRET'' \<mapsto> ''s3cret'', ''MONGODB_URI'' \<mapsto> ''mongodb://db/app'']"

definition lower_hex :: "char \<Rightarrow> char" where
  "lower_hex c =
     (if c = CHR ''A'' then CHR ''a'' else if c = CHR ''B'' then CHR ''b''
      else if c = CHR ''C'' then CHR ''c'' else if c = CHR ''D'' then CHR ''d''
      else if c = CHR ''E'' then CHR ''e'' else if c = CHR ''F'' then CHR ''f'' else c)"

definition hex_cast :: "string \<Rightarrow> oid option" where
  "hex_cast s =
     (if length s = 24 \<and> list_all (\<lambda>c. c \<in> set ''0123456789abcdefABCDEF'') s
      then Some (map lower_hex s) else None)"

definition alice_id :: oid where
  "alice_id = ''64b000000000000000000001''"

definition bob_id :: oid where
  "bob_id = ''64b000000000000000000002''"

definition admin_id :: oid where
  "admin_id = ''64b000000000000000000003''"

definition alice :: user where
  "alice = \<lparr>isActive = True, createdAt = 1690000000000, updatedAt = 1690000000000,
            username = ''alice'', email = ''alice@example.com'', firstName = ''Alice'',
            lastName = ''Ames'', role = RoleUser, password = ''$2a$12$aaaa''\<rparr>"

definition bob :: user where
  "bob = \<lparr>isActive = True, createdAt = 1690000000001, updatedAt = 1690000000001,
          username = ''bob'', email = ''bob@example.com'', firstName = ''Bob'',
          lastName = ''Bell'', role = RoleUser, password = ''$2a$12$bbbb''\<rparr>"

definition admin_user :: user where
  "admin_user = \<lparr>isActive = True, createdAt = 1690000000002, updatedAt = 1690000000002,
           username = ''admin'', email = ''admin@example.com'', firstName = ''Admin'',
           lastName = ''User'', role = RoleAdmin, password = ''$2a$12$cccc''\<rparr>"

definition lamp_id :: oid where
  "lamp_id = ''64c000000000000000000001''"

definition sofa_id :: oid where
  "sofa_id = ''64c000000000000000000002''"

definition lamp :: product where
  "lamp = \<lparr>isActive = True, createdAt = 1690000001000, updatedAt = 1690000001000,
           name = ''Lamp'', description = ''A desk lamp'', price = 20, category = ''home'',
           stock = 5, images = [], specifications = [], tags = [''light''],
           createdBy = admin_id\<rparr>"

definition sofa :: product where
  "sofa = \<lparr>isActive = False, createdAt = 1690000002000, updatedAt = 1690000003000,
           name = ''Sofa'', description = ''A sofa'', price = 300, category = ''home'',
           stock = 0, images = [], specifications = [], tags = [],
           createdBy = admin_id\<rparr>"

definition db_example :: db where
  "db_example = \<lparr>users = [(alice_id, alice), (bob_id, bob), (admin_id, admin_user)],
                 products = [(lamp_id, lamp), (sofa_id, sofa)]\<rparr>"

definition identity :: "oid \<Rightarrow> string \<Rightarrow> jwt_payload" where
  "identity uid r =
     \<lparr>userId = Some uid, role = Some r, email = None, type = None,
      iat = Some 1700000000, exp = Some 1700604800,
      iss = Some ''AWS MongoDB Backend'', aud = Some ''aws-mongodb-app-users''\<rparr>"

text \<open>Requests against the example store.\<close>

text \<open>
  The admin addressing the own account with the id written in upper-case hexadecimal
  digits, as a client may write it in the path; the token carries the id as the store
  prints it.
\<close>

definition admin_on_self_upper :: request where
  "admin_on_self_upper =
     \<lparr>user = identity admin_id ''admin'', params_id = ''64B000000000000000000003'',
      body = []\<rparr>"

definition alice_takes_bobs_name :: request where
  "alice_takes_bobs_name =
     \<lparr>user = identity alice_id ''user'', params_id = alice_id,
      body = [(''username'', JStr ''bob'')]\<rparr>"

definition alice_renames :: request where
  "alice_renames =
     \<lparr>user = identity alice_id ''user'', params_id = alice_id,
      body = [(''firstName'', JStr ''Alicia'')]\<rparr>"

definition bob_on_alice :: request where
  "bob_on_alice =
     \<lparr>user = identity bob_id ''user'', params_id = alice_id,
      body = [(''firstName'', JStr ''Mallory'')]\<rparr>"

section \<open>Auxiliary facts\<close>

subsection \<open>Splitting at spaces\<close>

lemma split_space_not_Nil: "split_space s \<noteq> []"
  by (induction s) (auto split: list.splits)

lemma split_space_no_space: "CHR '' '' \<notin> set s \<Longrightarrow> split_space s = [s]"
  by (induction s) auto

lemma split_space_append:
  "CHR '' '' \<notin> set a \<Longrightarrow> split_space (a @ CHR '' '' # b) = a # split_space b"
  by (induction a) auto

text \<open>
  The first piece has no space; the input is that piece alone, or the piece, a space and
  an input that splits into the remaining pieces.
\<close>

lemma split_space_Cons:
  "split_space s = w # ws \<Longrightarrow>
     CHR '' '' \<notin> set w \<and>
     (if ws = [] then s = w else \<exists>r. s = w @ CHR '' '' # r \<and> split_space r = ws)"
proof (induction s arbitrary: w ws)
  case Nil
  then show ?case by simp
next
  case (Cons c cs)
  show ?case
  proof (cases "c = CHR '' ''")
    case True
    with Cons.prems have "w = []" and "ws = split_space cs" by simp_all
    then show ?thesis using True split_space_not_Nil[of cs] by simp
  next
    case False
    obtain v vs where v: "split_space cs = v # vs"
      using split_space_not_Nil[of cs] by (cases "split_space cs") auto
    with Cons.prems False have w: "w = c # v" and ws: "ws = vs" by simp_all
    from Cons.IH[OF v] have ih: "CHR '' '' \<notin> set v"
      "if vs = [] then cs = v else \<exists>r. cs = v @ CHR '' '' # r \<and> split_space r = vs"
      by simp_all
    show ?thesis
    proof (cases "vs = []")
      case True
      then show ?thesis using ih w ws False by simp
    next
      case False
      then obtain r where "cs = v @ CHR '' '' # r" "split_space r = vs"
        using ih(2) by auto
      then show ?thesis using ih(1) w ws False \<open>c \<noteq> CHR '' ''\<close> by auto
    qed
  qed
qed

lemma split_space_pair:
  "split_space s = [a, b] \<longleftrightarrow>
     (s = a @ CHR '' '' # b \<and> CHR '' '' \<notin> set a \<and> CHR '' '' \<notin> set b)"
proof
  assume h: "split_space s = [a, b]"
  from split_space_Cons[OF h] obtain r where
    a: "CHR '' '' \<notin> set a" and s: "s = a @ CHR '' '' # r" and r: "split_space r = [b]"
    by auto
  from split_space_Cons[OF r] have "CHR '' '' \<notin> set b" "r = b" by simp_all
  with a s show "s = a @ CHR '' '' # b \<and> CHR '' '' \<notin> set a \<and> CHR '' '' \<notin> set b"
    by simp
next
  assume "s = a @ CHR '' '' # b \<and> CHR '' '' \<notin> set a \<and> CHR '' '' \<notin> set b"
  then show "split_space s = [a, b]"
    by (simp add: split_space_append split_space_no_space)
qed

lemma length_two: "length xs = 2 \<longleftrightarrow> (\<exists>a b. xs = [a, b])"
proof (cases xs)
  case Nil
  then show ?thesis by simp
next
  case (Cons x ys)
  then show ?thesis by (cases ys) auto
qed

subsection \<open>Collections\<close>

lemma map_of_update_docs:
  "map_of (map (\<lambda>(k', x). if k' = k then (k', f x) else (k', x)) coll) j =
     (if j = k then map_option f (map_of coll k) else map_of coll j)"
  by (induction coll) auto

lemma map_update_docs_absent:
  "map_of coll k = None \<Longrightarrow> map (\<lambda>(k', x). if k' = k then (k', f x) else (k', x)) coll = coll"
  by (induction coll) (auto split: if_splits)

lemma map_fst_update_docs:
  "map fst (map (\<lambda>(k', x). if k' = k then (k', f x) else (k', x)) coll) = map fst coll"
  by (induction coll) auto

lemma findById_found:
  "cast i = Some k \<Longrightarrow> map_of coll k = Some x \<Longrightarrow> findById cast coll i = Inr (Some (k, x))"
  by (simp add: findById_def)

subsection \<open>The example store\<close>

lemma hex_cast_alice: "hex_cast alice_id = Some alice_id"
  by (simp add: hex_cast_def alice_id_def lower_hex_def)

lemma hex_cast_lamp: "hex_cast lamp_id = Some lamp_id"
  by (simp add: hex_cast_def lamp_id_def lower_hex_def)

lemma hex_cast_sofa: "hex_cast sofa_id = Some sofa_id"
  by (simp add: hex_cast_def sofa_id_def lower_hex_def)

lemma users_example:
  "map_of (users db_example) alice_id = Some alice"
  "map_of (users db_example) bob_id = Some bob"
  "map_of (users db_example) admin_id = Some admin_user"
  by (simp_all add: db_example_def alice_id_def bob_id_def admin_id_def)

lemma products_example:
  "map_of (products db_example) lamp_id = Some lamp"
  "map_of (products db_example) sofa_id = Some sofa"
  by (simp_all add: db_example_def lamp_id_def sofa_id_def)

subsection \<open>The branches of the user update route\<close>

lemma valid_username_nonempty:
  assumes "updateUserSchema_validate b = None"
  shows "body_string b ''username'' \<noteq> Some []"
proof
  assume "body_string b ''username'' = Some []"
  then have "map_of b ''username'' = Some (JStr [])"
    by (auto simp: body_string_def split: option.splits json.splits)
  then have "joi_string ''username'' (Some 3) 30 (map_of b ''username'')
               = Some (StringEmpty ''username'')" by simp
  with assms show False
    by (simp add: updateUserSchema_validate_def split: option.splits)
qed

lemma users_put_invalid:
  assumes "updateUserSchema_validate (body req) = Some err"
  shows "users_put cast now d req =
    (d, \<lparr>status = 400, success = False, message = Some (JoiMessage err), data = None\<rparr>)"
  using assms by (simp add: users_put_def)

lemma users_put_denied:
  assumes "updateUserSchema_validate (body req) = None" and "access_denied req"
  shows "users_put cast now d req = (d, failure 403 ''Access denied'')"
  using assms by (simp add: users_put_def)

lemma users_put_cast_error:
  assumes "updateUserSchema_validate (body req) = None" and "\<not> access_denied req"
    and "cast (params_id req) = None"
  shows "users_put cast now d req = (d, failure 500 ''Server error'')"
  using assms
  by (simp add: users_put_def Let_def findOne_username_ne_def findByIdAndUpdate_def
      split: option.splits)

lemma users_put_taken:
  assumes "updateUserSchema_validate (body req) = None" and "\<not> access_denied req"
    and "cast (params_id req) = Some k" and "username_taken d k (body req)"
  shows "users_put cast now d req = (d, failure 400 ''Username already taken'')"
proof -
  from assms(4) obtain v where v: "body_string (body req) ''username'' = Some v"
    and f: "find (\<lambda>(k', u). username u = v \<and> k' \<noteq> k) (users d) \<noteq> None"
    by (auto simp: username_taken_def split: option.splits)
  from v valid_username_nonempty[OF assms(1)] have "v \<noteq> []" by auto
  with assms(1,2,3) v f show ?thesis
    by (auto simp: users_put_def Let_def findOne_username_ne_def)
qed

lemma users_put_free:
  assumes "updateUserSchema_validate (body req) = None" and "\<not> access_denied req"
    and "cast (params_id req) = Some k" and "\<not> username_taken d k (body req)"
  shows "users_put cast now d req =
     (case map_of (users d) k of
        None \<Rightarrow> (d, failure 404 ''User not found'')
      | Some u \<Rightarrow>
         (d\<lparr>users := map (\<lambda>(k', x). if k' = k
               then (k', update_user_fields (body_string (body req) ''firstName'')
                           (body_string (body req) ''lastName'')
                           (body_string (body req) ''username'') now x)
               else (k', x)) (users d)\<rparr>,
          \<lparr>status = 200, success = True,
           message = Some (Text ''User updated successfully''),
           data = Some (user_public.truncate
              (update_user_fields (body_string (body req) ''firstName'')
                           (body_string (body req) ''lastName'')
                           (body_string (body req) ''username'') now u))\<rparr>))"
proof -
  have chk: "(case body_string (body req) ''username'' of
                None \<Rightarrow> Inr None
              | Some v \<Rightarrow> if v = [] then Inr None
                  else findOne_username_ne cast (users d) v (params_id req)) = Inr None"
    using assms(3,4)
    by (auto simp: username_taken_def findOne_username_ne_def split: option.splits)
  show ?thesis
  proof (cases "map_of (users d) k")
    case None
    then show ?thesis
      using assms(1,2,3) chk
      by (simp add: users_put_def Let_def findByIdAndUpdate_def map_update_docs_absent)
  next
    case (Some u)
    then show ?thesis
      using assms(1,2,3) chk
      by (simp add: users_put_def Let_def findByIdAndUpdate_def)
  qed
qed

subsection \<open>Issuing and reading tokens\<close>

lemma generateToken_signed:
  assumes "truthy (e ''JWT_SECRET'')"
    and "timespan ms (access_expiresIn e options) (t0 div 1000) = Some ex"
  shows "\<exists>k. e ''JWT_SECRET'' = Some k \<and> generateToken ms e t0 u options =
      Inr (Jws \<lparr>userId = Some u,
                role = (if truthy (opt_role options) then opt_role options else None),
                email = (if truthy (opt_email options) then opt_email options else None),
                type = None, iat = Some (t0 div 1000), exp = Some ex,
                iss = Some (app_issuer e), aud = Some app_audience\<rparr> k)"
  using assms
  by (auto simp: generateToken_def jwt_sign_def truthy_def Let_def split: option.splits)

text \<open>
  What \<open>isTokenExpired\<close> computes: a token that does not decode, a token without
  \<open>exp\<close> or with \<open>exp\<close> 0, and a token whose \<open>exp\<close> is strictly before the clock's
  second.
\<close>

lemma isTokenExpired_iff:
  "isTokenExpired now tok \<longleftrightarrow>
     (case jwt_decode tok of
        None \<Rightarrow> True
      | Some p \<Rightarrow> exp p = None \<or> exp p = Some 0 \<or> (\<exists>x. exp p = Some x \<and> x < now div 1000))"
  by (auto simp: isTokenExpired_def split: option.splits)


section \<open>Properties of the token utilities\<close>

text \<open>
  C1. Verifying the access token issued for a user id succeeds and gives that user id
  back. The process has its secret (\<open>JWT_SECRET\<close> is set and not empty, which
  \<open>start.js\<close> checks), the configured life time converts to an expiry \<open>ex\<close>, and the
  token is verified at a clock reading \<open>t1\<close> before that expiry; \<open>t0\<close> is the clock
  reading at issue. The user id is arbitrary, and so are the optional claims.
\<close>

theorem verifyToken_generateToken:
  assumes "truthy (e ''JWT_SECRET'')"
    and "timespan ms (access_expiresIn e options) (t0 div 1000) = Some ex"
    and "t1 div 1000 < ex"
  shows "\<exists>tok p. generateToken ms e t0 u options = Inr tok
           \<and> verifyToken e t1 tok = Inr p \<and> userId p = Some u"
proof -
  from generateToken_signed[OF assms(1,2), of u] obtain k where
    k: "e ''JWT_SECRET'' = Some k"
    and tok: "generateToken ms e t0 u options =
      Inr (Jws \<lparr>userId = Some u,
                role = (if truthy (opt_role options) then opt_role options else None),
                email = (if truthy (opt_email options) then opt_email options else None),
                type = None, iat = Some (t0 div 1000), exp = Some ex,
                iss = Some (app_issuer e), aud = Some app_audience\<rparr> k)"
    by blast
  from assms(1) k have "k \<noteq> []" by (simp add: truthy_def)
  with k assms(3) have
    "verifyToken e t1 (Jws \<lparr>userId = Some u,
                role = (if truthy (opt_role options) then opt_role options else None),
                email = (if truthy (opt_email options) then opt_email options else None),
                type = None, iat = Some (t0 div 1000), exp = Some ex,
                iss = Some (app_issuer e), aud = Some app_audience\<rparr> k)
     = Inr \<lparr>userId = Some u,
                role = (if truthy (opt_role options) then opt_role options else None),
                email = (if truthy (opt_email options) then opt_email options else None),
                type = None, iat = Some (t0 div 1000), exp = Some ex,
                iss = Some (app_issuer e), aud = Some app_audience\<rparr>"
    by (simp add: verifyToken_def jwt_verify_def)
  with tok show ?thesis by simp
qed

theorem verifyToken_generateToken_witness:
  "truthy (env_example ''JWT_SECRET'')
   \<and> timespan ms_table (access_expiresIn env_example no_options) (1700000000000 div 1000)
       = Some 1700604800
   \<and> 1700000001000 div 1000 < (1700604800::int)
   \<and> (\<exists>tok p. generateToken ms_table env_example 1700000000000 ''507f1f77bcf86cd799439011''
                  no_options = Inr tok
           \<and> verifyToken env_example 1700000001000 tok = Inr p
           \<and> userId p = Some ''507f1f77bcf86cd799439011'')"
proof -
  have a: "truthy (env_example ''JWT_SECRET'')"
    by (simp add: env_example_def truthy_def)
  have b: "timespan ms_table (access_expiresIn env_example no_options) (1700000000000 div 1000)
       = Some 1700604800"
    by (simp add: timespan_def access_expiresIn_def env_expiresIn_def env_example_def
        no_options_def ms_table_def)
  have c: "1700000001000 div 1000 < (1700604800::int)" by simp
  show ?thesis
    using a b c verifyToken_generateToken[OF a b c, of "''507f1f77bcf86cd799439011''"]
    by blast
qed

text \<open>
  C4. \<open>extractTokenFromHeader\<close> returns a token exactly when the header is the word
  \<open>Bearer\<close>, one space, and a second segment without a space; the token is that
  segment. A missing or empty header, another scheme, and fewer or more segments give
  \<open>null\<close>. (The second segment of the header \<open>Bearer\<close> followed by one space is the
  empty string, and that is what is returned for it.)
\<close>

theorem extractTokenFromHeader_bearer:
  "extractTokenFromHeader h = Some t \<longleftrightarrow>
     (h = Some (''Bearer '' @ t) \<and> CHR '' '' \<notin> set t)"
proof (cases h)
  case None
  then show ?thesis by (simp add: extractTokenFromHeader_def)
next
  case (Some s)
  show ?thesis
  proof (cases "s = []")
    case True
    with Some show ?thesis by (simp add: extractTokenFromHeader_def)
  next
    case False
    have "extractTokenFromHeader h = Some t \<longleftrightarrow> split_space s = [''Bearer'', t]"
      using Some False by (auto simp: extractTokenFromHeader_def Let_def length_two)
    also have "\<dots> \<longleftrightarrow> (s = ''Bearer '' @ t \<and> CHR '' '' \<notin> set t)"
      by (simp add: split_space_pair)
    finally show ?thesis using Some by simp
  qed
qed

theorem extractTokenFromHeader_bearer_witness:
  "CHR '' '' \<notin> set ''abc.def.ghi''
   \<and> extractTokenFromHeader (Some ''Bearer abc.def.ghi'') = Some ''abc.def.ghi''
   \<and> extractTokenFromHeader (Some ''Bearer abc def'') \<noteq> Some ''abc def''"
proof -
  have a: "CHR '' '' \<notin> set ''abc.def.ghi''" by simp
  have b: "extractTokenFromHeader (Some ''Bearer abc.def.ghi'') = Some ''abc.def.ghi''"
    using extractTokenFromHeader_bearer[of "Some ''Bearer abc.def.ghi''" "''abc.def.ghi''"]
    by simp
  have c: "extractTokenFromHeader (Some ''Bearer abc def'') \<noteq> Some ''abc def''"
    using extractTokenFromHeader_bearer[of "Some ''Bearer abc def''" "''abc def''"]
    by simp
  from a b c show ?thesis by simp
qed

text \<open>
  C5. A token issued with a life time of 0 seconds and checked at the clock reading of
  its issue is not reported expired. With \<open>expiresIn: '0s'\<close> the token's \<open>exp\<close> is
  the second of issue; \<open>isTokenExpired\<close> answers \<open>false\<close>, because it compares \<open>exp\<close>
  strictly below the clock's second, while \<open>verifyToken\<close> rejects the same token at
  the same instant as expired. With the number \<open>expiresIn: 0\<close> the option is falsy,
  the token gets the default life time of 7 days, \<open>isTokenExpired\<close> answers \<open>false\<close>
  and \<open>verifyToken\<close> accepts it.
\<close>

theorem isTokenExpired_zero_lifetime:
  "generateToken ms_table env_example 1700000000000 ''507f1f77bcf86cd799439011''
     \<lparr>opt_role = None, opt_email = None, opt_expiresIn = Some (Span ''0s'')\<rparr>
     = Inr (Jws \<lparr>userId = Some ''507f1f77bcf86cd799439011'', role = None, email = None,
                 type = None, iat = Some 1700000000, exp = Some 1700000000,
                 iss = Some ''AWS MongoDB Backend'', aud = Some ''aws-mongodb-app-users''\<rparr>
              ''s3cret'')
   \<and> isTokenExpired 1700000000000
        (Jws \<lparr>userId = Some ''507f1f77bcf86cd799439011'', role = None, email = None,
                 type = None, iat = Some 1700000000, exp = Some 1700000000,
                 iss = Some ''AWS MongoDB Backend'', aud = Some ''aws-mongodb-app-users''\<rparr>
              ''s3cret'') = False
   \<and> verifyToken env_example 1700000000000
        (Jws \<lparr>userId = Some ''507f1f77bcf86cd799439011'', role = None, email = None,
                 type = None, iat = Some 1700000000, exp = Some 1700000000,
                 iss = Some ''AWS MongoDB Backend'', aud = Some ''aws-mongodb-app-users''\<rparr>
              ''s3cret'') = Inl TokenExpiredError
   \<and> generateToken ms_table env_example 1700000000000 ''507f1f77bcf86cd799439011''
     \<lparr>opt_role = None, opt_email = None, opt_expiresIn = Some (Seconds 0)\<rparr>
     = Inr (Jws \<lparr>userId = Some ''507f1f77bcf86cd799439011'', role = None, email = None,
                 type = None, iat = Some 1700000000, exp = Some 1700604800,
                 iss = Some ''AWS MongoDB Backend'', aud = Some ''aws-mongodb-app-users''\<rparr>
              ''s3cret'')
   \<and> isTokenExpired 1700000000000
        (Jws \<lparr>userId = Some ''507f1f77bcf86cd799439011'', role = None, email = None,
                 type = None, iat = Some 1700000000, exp = Some 1700604800,
                 iss = Some ''AWS MongoDB Backend'', aud = Some ''aws-mongodb-app-users''\<rparr>
              ''s3cret'') = False
   \<and> verifyToken env_example 1700000000000
        (Jws \<lparr>userId = Some ''507f1f77bcf86cd799439011'', role = None, email = None,
                 type = None, iat = Some 1700000000, exp = Some 1700604800,
                 iss = Some ''AWS MongoDB Backend'', aud = Some ''aws-mongodb-app-users''\<rparr>
              ''s3cret'')
       = Inr \<lparr>userId = Some ''507f1f77bcf86cd799439011'', role = None, email = None,
                 type = None, iat = Some 1700000000, exp = Some 1700604800,
                 iss = Some ''AWS MongoDB Backend'', aud = Some ''aws-mongodb-app-users''\<rparr>"
  by (simp add: generateToken_def jwt_sign_def timespan_def access_expiresIn_def
      env_expiresIn_def env_example_def truthy_def ms_table_def app_issuer_def
      app_audience_def isTokenExpired_def jwt_decode_def verifyToken_def jwt_verify_def)

text \<open>
  C6. The refresh token for a user id carries the user id and \<open>type: 'refresh'\<close>, no
  role and no email, and the registered claims of the library: issued now, expiring
  30 days (2592000 seconds) later whatever \<open>JWT_EXPIRE\<close> says, with the issuer and
  audience that access tokens get, signed with the same secret. The function takes no
  options, so a caller has nothing to override. \<open>ms\<close> is assumed to read \<open>30d\<close> as
  30 days in milliseconds.
\<close>

theorem generateRefreshToken_contract:
  assumes "e ''JWT_SECRET'' = Some k" and "k \<noteq> []" and "ms ''30d'' = Some 2592000000"
  shows "generateRefreshToken ms e now u =
           Inr (Jws \<lparr>userId = Some u, role = None, email = None, type = Some ''refresh'',
                      iat = Some (now div 1000), exp = Some (now div 1000 + 2592000),
                      iss = Some (app_issuer e), aud = Some app_audience\<rparr> k)
         \<and> (\<forall>now' u' options p' k'.
               generateToken ms e now' u' options = Inr (Jws p' k') \<longrightarrow>
               k' = k \<and> iss p' = Some (app_issuer e) \<and> aud p' = Some app_audience)"
  using assms
  by (auto simp: generateRefreshToken_def generateToken_def jwt_sign_def timespan_def Let_def
      split: option.splits)

theorem generateRefreshToken_contract_witness:
  "env_example ''JWT_SECRET'' = Some ''s3cret'' \<and> ''s3cret'' \<noteq> []
   \<and> ms_table ''30d'' = Some 2592000000
   \<and> generateRefreshToken ms_table env_example 1700000000000 ''64b000000000000000000001'' =
       Inr (Jws \<lparr>userId = Some ''64b000000000000000000001'', role = None, email = None,
                  type = Some ''refresh'', iat = Some 1700000000, exp = Some 1702592000,
                  iss = Some ''AWS MongoDB Backend'', aud = Some ''aws-mongodb-app-users''\<rparr>
              ''s3cret'')"
proof -
  have a: "env_example ''JWT_SECRET'' = Some ''s3cret''" by (simp add: env_example_def)
  have b: "''s3cret'' \<noteq> []" by simp
  have c: "ms_table ''30d'' = Some 2592000000" by (simp add: ms_table_def)
  have i: "app_issuer env_example = ''AWS MongoDB Backend''"
    by (simp add: app_issuer_def env_example_def)
  from generateRefreshToken_contract[where e = env_example and ms = ms_table
      and now = 1700000000000 and u = "''64b000000000000000000001''", OF a b c]
  have "generateRefreshToken ms_table env_example 1700000000000 ''64b000000000000000000001'' =
       Inr (Jws \<lparr>userId = Some ''64b000000000000000000001'', role = None, email = None,
                  type = Some ''refresh'', iat = Some 1700000000, exp = Some 1702592000,
                  iss = Some ''AWS MongoDB Backend'', aud = Some ''aws-mongodb-app-users''\<rparr>
              ''s3cret'')"
    by (simp add: i app_audience_def)
  with a b c show ?thesis by simp
qed

section \<open>Properties of the launcher\<close>

text \<open>
  C7. When \<open>JWT_SECRET\<close> or \<open>MONGODB_URI\<close> is absent at startup (not set in the
  process environment, and not given by \<open>.env\<close>), the launcher exits with status 1
  and \<open>server.js\<close> is never loaded.
\<close>

theorem start_missing_required:
  assumes "v = ''JWT_SECRET'' \<or> v = ''MONGODB_URI''"
    and "process_env v = None"
    and "case dotenv_file of None \<Rightarrow> True | Some f \<Rightarrow> f v = None"
  shows "start process_env dotenv_file = ProcessExit 1"
proof (cases dotenv_file)
  case None
  then show ?thesis by (simp add: start_def)
next
  case (Some f)
  have none: "(f ++ process_env) v = None"
    using assms(2,3) Some by (simp add: map_add_def)
  have nt: "\<not> truthy ((f ++ process_env) v)"
    unfolding truthy_def none by simp
  have "v \<in> set requiredEnvVars" using assms(1) by (auto simp: requiredEnvVars_def)
  with nt have "v \<in> set (missingEnvVars (f ++ process_env))"
    by (simp add: missingEnvVars_def)
  then have "length (missingEnvVars (f ++ process_env)) > 0"
    by (cases "missingEnvVars (f ++ process_env)") auto
  with Some show ?thesis by (simp add: start_def Let_def)
qed

theorem start_missing_required_witness:
  "(''JWT_SECRET'' = ''JWT_SECRET'' \<or> ''JWT_SECRET'' = ''MONGODB_URI'')
   \<and> (Map.empty :: env) ''JWT_SECRET'' = None
   \<and> (case Some [''MONGODB_URI'' \<mapsto> ''mongodb://db/app''] of None \<Rightarrow> True
       | Some f \<Rightarrow> f ''JWT_SECRET'' = None)
   \<and> start Map.empty (Some [''MONGODB_URI'' \<mapsto> ''mongodb://db/app'']) = ProcessExit 1"
  using start_missing_required[of "''JWT_SECRET''" Map.empty
      "Some [''MONGODB_URI'' \<mapsto> ''mongodb://db/app'']"]
  by simp

section \<open>Properties of the user routes\<close>

text \<open>
  C2, as the code has it. For a request that the \<open>auth\<close> middleware let through and
  whose body passes the schema: a requester who is neither the user \<open>id\<close> nor an
  admin gets 403 and the store is unchanged; the update is performed (200) exactly when
  the requester is that user or an admin, \<open>id\<close> casts to the id of a stored user, and
  the body does not ask for a username that another user has; then the stored user
  is the old one with the supplied fields and the clock as \<open>updatedAt\<close>; with any
  other answer the store is unchanged.
\<close>

theorem users_put_ownership:
  assumes valid: "updateUserSchema_validate (body req) = None"
  shows "(access_denied req \<longrightarrow>
            users_put cast now d req =
              (d, \<lparr>status = 403, success = False,
                   message = Some (Text ''Access denied''), data = None\<rparr>))
       \<and> (status (snd (users_put cast now d req)) = 200 \<longleftrightarrow>
            \<not> access_denied req
            \<and> (\<exists>k. cast (params_id req) = Some k \<and> map_of (users d) k \<noteq> None
                   \<and> \<not> username_taken d k (body req)))
       \<and> (status (snd (users_put cast now d req)) = 200 \<longrightarrow>
            (\<exists>k u. cast (params_id req) = Some k \<and> map_of (users d) k = Some u
               \<and> map_of (users (fst (users_put cast now d req))) k =
                   Some (update_user_fields (body_string (body req) ''firstName'')
                           (body_string (body req) ''lastName'')
                           (body_string (body req) ''username'') now u)))
       \<and> (status (snd (users_put cast now d req)) \<noteq> 200 \<longrightarrow>
            fst (users_put cast now d req) = d)"
proof (cases "access_denied req")
  case True
  have "users_put cast now d req = (d, failure 403 ''Access denied'')"
    using valid True by (rule users_put_denied)
  then show ?thesis using True by (simp add: failure_def)
next
  case allowed: False
  show ?thesis
  proof (cases "cast (params_id req)")
    case None
    have "users_put cast now d req = (d, failure 500 ''Server error'')"
      using valid allowed None by (rule users_put_cast_error)
    then show ?thesis using allowed None by (simp add: failure_def)
  next
    case (Some k)
    show ?thesis
    proof (cases "username_taken d k (body req)")
      case True
      have "users_put cast now d req = (d, failure 400 ''Username already taken'')"
        using valid allowed Some True by (rule users_put_taken)
      then show ?thesis using allowed Some True by (simp add: failure_def)
    next
      case free: False
      note run = users_put_free[where cast = cast and now = now, OF valid allowed Some free]
      show ?thesis
      proof (cases "map_of (users d) k")
        case None
        with run show ?thesis using allowed Some free by (simp add: failure_def)
      next
        case found: (Some u)
        with run show ?thesis using allowed Some free
          by (simp add: map_of_update_docs)
      qed
    qed
  qed
qed

theorem users_put_ownership_witness:
  "updateUserSchema_validate (body alice_renames) = None
   \<and> updateUserSchema_validate (body bob_on_alice) = None
   \<and> \<not> access_denied alice_renames
   \<and> access_denied bob_on_alice
   \<and> status (snd (users_put hex_cast 1700000000000 db_example alice_renames)) = 200
   \<and> users_put hex_cast 1700000000000 db_example bob_on_alice =
        (db_example, \<lparr>status = 403, success = False,
                        message = Some (Text ''Access denied''), data = None\<rparr>)"
proof -
  have v1: "updateUserSchema_validate (body alice_renames) = None"
    by (simp add: updateUserSchema_validate_def alice_renames_def)
  have v2: "updateUserSchema_validate (body bob_on_alice) = None"
    by (simp add: updateUserSchema_validate_def bob_on_alice_def)
  have a1: "\<not> access_denied alice_renames"
    by (simp add: access_denied_def alice_renames_def identity_def)
  have a2: "access_denied bob_on_alice"
    by (simp add: access_denied_def bob_on_alice_def identity_def alice_id_def bob_id_def)
  have c1: "hex_cast (params_id alice_renames) = Some alice_id"
    by (simp add: alice_renames_def hex_cast_alice)
  have f1: "\<not> username_taken db_example alice_id (body alice_renames)"
    by (simp add: username_taken_def body_string_def alice_renames_def)
  have ok: "status (snd (users_put hex_cast 1700000000000 db_example alice_renames)) = 200"
    using users_put_ownership[where cast = hex_cast and now = 1700000000000
        and d = db_example, OF v1] a1 c1 f1 users_example(1)
    by simp
  have no: "users_put hex_cast 1700000000000 db_example bob_on_alice =
        (db_example, \<lparr>status = 403, success = False,
                        message = Some (Text ''Access denied''), data = None\<rparr>)"
    using users_put_ownership[where cast = hex_cast and now = 1700000000000
        and d = db_example, OF v2] a2
    by simp
  from v1 v2 a1 a2 ok no show ?thesis by simp
qed

text \<open>
  C2, as the claim states it, fails: Alice, authenticated as herself, asks for the
  username \<open>bob\<close> with a body that passes the schema. She is the owner of the record,
  yet no update is performed: the answer is 400 and the store is unchanged.
\<close>

theorem users_put_owner_refused:
  "updateUserSchema_validate (body alice_takes_bobs_name) = None
   \<and> userId (user alice_takes_bobs_name) = Some (params_id alice_takes_bobs_name)
   \<and> users_put hex_cast 1700000000000 db_example alice_takes_bobs_name
      = (db_example, \<lparr>status = 400, success = False,
                      message = Some (Text ''Username already taken''), data = None\<rparr>)"
  by (simp add: updateUserSchema_validate_def users_put_def access_denied_def identity_def
      alice_takes_bobs_name_def body_string_def findOne_username_ne_def hex_cast_def
      lower_hex_def alice_id_def bob_id_def admin_id_def db_example_def alice_def bob_def
      admin_user_def failure_def Let_def)

text \<open>
  The self check of the delete route and of the toggle-status route compares the path
  id with the token's user id as strings. When the two strings are equal and the user
  exists, both routes answer 400 and leave the store as it was.
\<close>

lemma self_request_same_string:
  assumes "cast (params_id req) = Some k"
    and "map_of (users d) k = Some u"
    and "userId (user req) = Some (params_id req)"
  shows "users_delete cast d req =
           (d, \<lparr>status = 400, success = False,
                message = Some (Text ''Cannot delete your own account''), data = None\<rparr>)
       \<and> users_toggle_status cast timestamps now d req =
           (d, \<lparr>status = 400, success = False,
                message = Some (Text ''Cannot change your own status''), data = None\<rparr>)"
  using assms
  by (simp add: users_delete_def users_toggle_status_def findById_found failure_def)

text \<open>
  C3. An admin addressing the own account is not always refused. The record is found
  by casting the path id to an ObjectId, the self check compares strings: with the own
  id written in upper-case hexadecimal digits the path id casts to the admin's id but
  differs from the token's user id as a string. The delete route then answers 200 and
  removes the admin's own record, and the toggle-status route answers 200 and clears
  the admin's own active flag, where the routes' comments say that an admin is
  prevented from deleting and from deactivating themselves.
\<close>

theorem admin_self_protection_bypass:
  "hex_cast (params_id admin_on_self_upper) = Some admin_id
   \<and> userId (user admin_on_self_upper) = Some admin_id
   \<and> jwt_payload.role (user admin_on_self_upper) = Some ''admin''
   \<and> map_of (users db_example) admin_id = Some admin_user
   \<and> users_delete hex_cast db_example admin_on_self_upper =
         (db_example\<lparr>users := [(alice_id, alice), (bob_id, bob)]\<rparr>,
          \<lparr>status = 200, success = True,
           message = Some (Text ''User deleted successfully''), data = None\<rparr>)
   \<and> users_toggle_status hex_cast True 1700000000000 db_example admin_on_self_upper =
         (db_example\<lparr>users := [(alice_id, alice), (bob_id, bob),
             (admin_id, admin_user\<lparr>isActive := False, updatedAt := 1700000000000\<rparr>)]\<rparr>,
          \<lparr>status = 200, success = True,
           message = Some (Text ''User deactivated successfully''),
           data = Some (admin_id, ''admin'', ''admin@example.com'', False)\<rparr>)"
  by (simp add: admin_on_self_upper_def identity_def hex_cast_def lower_hex_def
      users_delete_def users_toggle_status_def findById_def findByIdAndDelete_def save_def
      db_example_def alice_id_def bob_id_def admin_id_def admin_user_def)

text \<open>
  C9. Whatever the request (authorized or not, any body, any requester), the update
  route leaves the ids of the stored users and, for each of them, the role, the email,
  the password hash, the active flag and the creation time as they were; the products
  are untouched. Only the first name, last name, username and \<open>updatedAt\<close> can differ.
\<close>

theorem users_put_frame:
  "map (\<lambda>(k, u). (k, role u, email u, password u, isActive u, createdAt u))
       (users (fst (users_put cast now d req)))
     = map (\<lambda>(k, u). (k, role u, email u, password u, isActive u, createdAt u)) (users d)
   \<and> products (fst (users_put cast now d req)) = products d"
proof (cases "updateUserSchema_validate (body req)")
  case (Some err)
  then show ?thesis by (simp add: users_put_invalid)
next
  case valid: None
  show ?thesis
  proof (cases "access_denied req")
    case True
    have "users_put cast now d req = (d, failure 403 ''Access denied'')"
      using valid True by (rule users_put_denied)
    then show ?thesis by simp
  next
    case allowed: False
    show ?thesis
    proof (cases "cast (params_id req)")
      case None
      have "users_put cast now d req = (d, failure 500 ''Server error'')"
        using valid allowed None by (rule users_put_cast_error)
      then show ?thesis by simp
    next
      case (Some k)
      show ?thesis
      proof (cases "username_taken d k (body req)")
        case True
        have "users_put cast now d req = (d, failure 400 ''Username already taken'')"
          using valid allowed Some True by (rule users_put_taken)
        then show ?thesis by simp
      next
        case free: False
        note run = users_put_free[where cast = cast and now = now, OF valid allowed Some free]
        show ?thesis
        proof (cases "map_of (users d) k")
          case None
          with run show ?thesis by simp
        next
          case (Some u)
          with run show ?thesis by (auto simp: update_user_fields_def)
        qed
      qed
    qed
  qed
qed

theorem users_put_frame_witness:
  "map (\<lambda>(k, u). (k, role u, email u, password u, isActive u, createdAt u))
       (users (fst (users_put hex_cast 1700000000000 db_example alice_renames)))
     = [(alice_id, RoleUser, ''alice@example.com'', ''$2a$12$aaaa'', True, 1690000000000),
        (bob_id, RoleUser, ''bob@example.com'', ''$2a$12$bbbb'', True, 1690000000001),
        (admin_id, RoleAdmin, ''admin@example.com'', ''$2a$12$cccc'', True, 1690000000002)]"
  using users_put_frame[of hex_cast 1700000000000 db_example alice_renames]
  by (simp add: db_example_def alice_def bob_def admin_user_def)

section \<open>Properties of the product routes\<close>

text \<open>
  C8. Deleting an existing product answers with success, keeps the record under its
  id with the active flag cleared and \<open>updatedAt\<close> set to the clock and every other
  field as it was, and leaves the other products, the order of the collection and the
  users untouched: nothing is removed.
\<close>

theorem products_soft_delete:
  assumes "cast ident = Some k" and "map_of (products d) k = Some p"
  shows "snd (products_delete cast now d ident) =
           \<lparr>status = 200, success = True,
            message = Some (Text ''Product deleted successfully''), data = None\<rparr>
       \<and> map_of (products (fst (products_delete cast now d ident))) k =
           Some (p\<lparr>isActive := False, updatedAt := now\<rparr>)
       \<and> (\<forall>j. j \<noteq> k \<longrightarrow>
             map_of (products (fst (products_delete cast now d ident))) j =
             map_of (products d) j)
       \<and> map fst (products (fst (products_delete cast now d ident))) = map fst (products d)
       \<and> users (fst (products_delete cast now d ident)) = users d"
proof -
  let ?upd = "\<lambda>p::product. p\<lparr>isActive := False, updatedAt := now\<rparr>"
  let ?coll = "map (\<lambda>(k', x). if k' = k then (k', ?upd x) else (k', x)) (products d)"
  have run: "products_delete cast now d ident =
      (d\<lparr>products := ?coll\<rparr>,
       \<lparr>status = 200, success = True,
        message = Some (Text ''Product deleted successfully''), data = None\<rparr>)"
    using assms by (simp add: products_delete_def findByIdAndUpdate_def)
  have keys: "map fst ?coll = map fst (products d)"
    by (rule map_fst_update_docs)
  have at_k: "map_of ?coll k = Some (?upd p)"
    using assms(2) by (simp only: map_of_update_docs) simp
  have others: "\<forall>j. j \<noteq> k \<longrightarrow> map_of ?coll j = map_of (products d) j"
    by (simp only: map_of_update_docs) simp
  show ?thesis
    unfolding run using keys at_k others by simp
qed

theorem products_soft_delete_witness:
  "hex_cast lamp_id = Some lamp_id
   \<and> map_of (products db_example) lamp_id = Some lamp
   \<and> snd (products_delete hex_cast 1700000000000 db_example lamp_id) =
         \<lparr>status = 200, success = True,
          message = Some (Text ''Product deleted successfully''), data = None\<rparr>
   \<and> map_of (products (fst (products_delete hex_cast 1700000000000 db_example lamp_id))) lamp_id
       = Some (lamp\<lparr>isActive := False, updatedAt := 1700000000000\<rparr>)
   \<and> map_of (products (fst (products_delete hex_cast 1700000000000 db_example lamp_id))) sofa_id
       = Some sofa
   \<and> map fst (products (fst (products_delete hex_cast 1700000000000 db_example lamp_id)))
       = [lamp_id, sofa_id]"
proof -
  have a: "hex_cast lamp_id = Some lamp_id" by (rule hex_cast_lamp)
  have b: "map_of (products db_example) lamp_id = Some lamp" by (rule products_example)
  have ne: "sofa_id \<noteq> lamp_id" by (simp add: sofa_id_def lamp_id_def)
  have keys: "map fst (products db_example) = [lamp_id, sofa_id]"
    by (simp add: db_example_def)
  from products_soft_delete[where cast = hex_cast and now = 1700000000000, OF a b]
    a b ne keys products_example(2)
  show ?thesis by simp
qed

text \<open>
  C10, as the code has it. For an id that casts to an ObjectId, the public read of a
  product answers 404 with the one body \<open>Product not found\<close> both when no product has
  that id and when the product's active flag is false.
\<close>

theorem products_get_not_found:
  assumes "cast ident = Some k"
    and "map_of (products d) k = None
         \<or> (\<exists>p. map_of (products d) k = Some p \<and> \<not> isActive p)"
  shows "products_get cast d ident =
           \<lparr>status = 404, success = False,
            message = Some (Text ''Product not found''), data = None\<rparr>"
  using assms
  by (auto simp: products_get_def findById_def failure_def)

theorem products_get_not_found_witness:
  "hex_cast ''64c0000000000000000000ff'' = Some ''64c0000000000000000000ff''
   \<and> map_of (products db_example) ''64c0000000000000000000ff'' = None
   \<and> hex_cast sofa_id = Some sofa_id
   \<and> map_of (products db_example) sofa_id = Some sofa \<and> isActive sofa = False
   \<and> products_get hex_cast db_example ''64c0000000000000000000ff'' =
        \<lparr>status = 404, success = False, message = Some (Text ''Product not found''),
         data = None\<rparr>
   \<and> products_get hex_cast db_example sofa_id =
        \<lparr>status = 404, success = False, message = Some (Text ''Product not found''),
         data = None\<rparr>"
proof -
  have a: "hex_cast ''64c0000000000000000000ff'' = Some ''64c0000000000000000000ff''"
    by (simp add: hex_cast_def lower_hex_def)
  have b: "map_of (products db_example) ''64c0000000000000000000ff'' = None"
    by (simp add: db_example_def lamp_id_def sofa_id_def)
  have c: "hex_cast sofa_id = Some sofa_id" by (rule hex_cast_sofa)
  have d: "map_of (products db_example) sofa_id = Some sofa" by (rule products_example)
  have e: "isActive sofa = False" by (simp add: sofa_def)
  have absent: "products_get hex_cast db_example ''64c0000000000000000000ff'' =
        \<lparr>status = 404, success = False, message = Some (Text ''Product not found''),
         data = None\<rparr>"
    using b by (intro products_get_not_found[where cast = hex_cast, OF a]) simp
  have inactive: "products_get hex_cast db_example sofa_id =
        \<lparr>status = 404, success = False, message = Some (Text ''Product not found''),
         data = None\<rparr>"
    using d e by (intro products_get_not_found[where cast = hex_cast, OF c]) simp
  from a b c d e absent inactive show ?thesis by simp
qed

text \<open>
  C10, as the claim states it for every id, fails: no product has the id \<open>abc\<close>, which
  does not cast to an ObjectId; the query throws and the answer is 500, not 404.
\<close>

theorem products_get_bad_id:
  "map_of (products db_example) ''abc'' = None
   \<and> products_get hex_cast db_example ''abc'' =
       \<lparr>status = 500, success = False, message = Some (Text ''Server error''), data = None\<rparr>"
  by (simp add: products_get_def findById_def failure_def hex_cast_def db_example_def
      lamp_id_def sofa_id_def)


end
